theory Spec2Isabelle
  imports Complex_Main "HOL-Library.Sublist"
begin

section \<open>Resume parser and job-field recommender (resumeparser-app/app.py)\<close>

text \<open>
  The development embeds the two classes \<^verbatim>\<open>JobFieldRecommender\<close> and
  \<^verbatim>\<open>ResumeParser\<close> of \<^verbatim>\<open>app.py\<close>.

  Conventions of the embedding:
  \<^item> Python strings are modelled as \<^typ>\<open>string\<close>. The character classes, the case
    mappings and the whitespace set are those of ASCII text; a character outside
    ASCII is treated as caseless, non-word and non-space.
  \<^item> Python floats are idealised as exact rationals (\<^typ>\<open>rat\<close>); \<^verbatim>\<open>/\<close> raises
    \<^verbatim>\<open>ZeroDivisionError\<close> on a zero divisor and \<^verbatim>\<open>round\<close> rounds halves to the even
    neighbour.
  \<^item> Exceptions are values: a fallible function returns \<open>error + 'a\<close>.
\<close>

subsection \<open>Errors\<close>

datatype error = ZeroDivisionError | IndexError | ValueError string

definition bind_err :: "error + 'a \<Rightarrow> ('a \<Rightarrow> error + 'b) \<Rightarrow> error + 'b" where
  "bind_err m f = (case m of Inl e \<Rightarrow> Inl e | Inr x \<Rightarrow> f x)"

subsection \<open>Characters and strings\<close>

definition ascii_uppercase :: string where
  "ascii_uppercase = ''ABCDEFGHIJKLMNOPQRSTUVWXYZ''"

definition ascii_lowercase :: string where
  "ascii_lowercase = ''abcdefghijklmnopqrstuvwxyz''"

definition digits :: string where
  "digits = ''0123456789''"

text \<open>\<^verbatim>\<open>str.lower\<close> and \<^verbatim>\<open>str.upper\<close>, one character at a time.\<close>

definition lower_char :: "char \<Rightarrow> char" where
  "lower_char c = (case map_of (zip ascii_uppercase ascii_lowercase) c of
                     Some d \<Rightarrow> d | None \<Rightarrow> c)"

definition upper_char :: "char \<Rightarrow> char" where
  "upper_char c = (case map_of (zip ascii_lowercase ascii_uppercase) c of
                     Some d \<Rightarrow> d | None \<Rightarrow> c)"

definition lower :: "string \<Rightarrow> string" where
  "lower s = map lower_char s"

text \<open>\<^verbatim>\<open>a in b\<close> on strings: \<open>a\<close> occurs in \<open>b\<close> as a contiguous substring.\<close>

fun str_contains :: "string \<Rightarrow> string \<Rightarrow> bool" where
  "str_contains [] a = (a = [])"
| "str_contains (c # cs) a = (take (length a) (c # cs) = a \<or> str_contains cs a)"

text \<open>\<^verbatim>\<open>str.replace(old, new)\<close> for a single-character \<open>old\<close>.\<close>

definition replace_char :: "char \<Rightarrow> string \<Rightarrow> string \<Rightarrow> string" where
  "replace_char old new s = concat (map (\<lambda>c. if c = old then new else [c]) s)"

subsection \<open>Numbers\<close>

text \<open>True division: \<^verbatim>\<open>a / n\<close> with \<open>n\<close> the length of a list.\<close>

definition py_truediv :: "rat \<Rightarrow> nat \<Rightarrow> error + rat" where
  "py_truediv a n = (if n = 0 then Inl ZeroDivisionError else Inr (a / of_nat n))"

text \<open>\<^verbatim>\<open>round(x)\<close> with one argument: the nearest integer, a tie going to the even one.\<close>

definition py_round :: "rat \<Rightarrow> int" where
  "py_round x =
     (let f = \<lfloor>x\<rfloor>; d = x - of_int f
      in if d < 1 / 2 then f
         else if 1 / 2 < d then f + 1
         else if even f then f else f + 1)"

subsection \<open>The job-field taxonomy\<close>

record job_field_data =
  fd_skills :: "string list"
  fd_keywords :: "string list"
  fd_weight :: rat

text \<open>One entry of the keyword-frequency list: \<^verbatim>\<open>{'word': ..., 'count': ...}\<close>.\<close>

record keyword_entry =
  word :: string
  count :: nat

record search_urls =
  url_linkedin :: string
  url_indeed :: string
  url_glassdoor :: string

record recommendation =
  field :: string
  match_percentage :: int
  job_search_url :: search_urls

text \<open>
  \<^verbatim>\<open>self.job_fields\<close>: a dict literal; iteration follows insertion order, so it is an
  association list in the order of the source.
\<close>

definition job_fields :: "(string \<times> job_field_data) list" where
  "job_fields =
   [(''Software Engineer'',
     \<lparr>fd_skills = [''Python'', ''Java'', ''JavaScript'', ''C++'', ''C#'', ''Go'', ''Ruby'', ''TypeScript'',
                   ''React'', ''Angular'', ''Vue.js'', ''Node.js'', ''Django'', ''Flask'', ''Spring'',
                   ''Git'', ''Docker'', ''Kubernetes'', ''AWS'', ''Azure'', ''REST API'', ''GraphQL''],
      fd_keywords = [''software'', ''developer'', ''programming'', ''coding'', ''full-stack'', ''backend'',
                     ''frontend'', ''api'', ''microservices'', ''agile'', ''scrum''],
      fd_weight = 1\<rparr>),
    (''Data Scientist'',
     \<lparr>fd_skills = [''Python'', ''R'', ''Machine Learning'', ''Deep Learning'', ''TensorFlow'', ''PyTorch'',
                   ''Scikit-learn'', ''Pandas'', ''NumPy'', ''Matplotlib'', ''Statistics'', ''SQL'',
                   ''Jupyter'', ''MATLAB'', ''SAS'', ''SPSS'', ''NLP'', ''Computer Vision''],
      fd_keywords = [''data'', ''analysis'', ''machine learning'', ''ai'', ''artificial intelligence'',
                     ''predictive'', ''modeling'', ''statistics'', ''research'', ''algorithm''],
      fd_weight = 1\<rparr>),
    (''Data Engineer'',
     \<lparr>fd_skills = [''Python'', ''SQL'', ''Apache Spark'', ''Hadoop'', ''Kafka'', ''Airflow'', ''ETL'',
                   ''AWS'', ''Azure'', ''GCP'', ''MongoDB'', ''PostgreSQL'', ''Redis'', ''Elasticsearch'',
                   ''Docker'', ''Kubernetes'', ''Scala'', ''Java'', ''Databricks'', ''Snowflake''],
      fd_keywords = [''data'', ''pipeline'', ''etl'', ''warehouse'', ''big data'', ''streaming'',
                     ''database'', ''infrastructure'', ''architect'', ''integration''],
      fd_weight = 1\<rparr>),
    (''DevOps Engineer'',
     \<lparr>fd_skills = [''Docker'', ''Kubernetes'', ''Jenkins'', ''Git'', ''CI/CD'', ''Terraform'', ''Ansible'',
                   ''AWS'', ''Azure'', ''Linux'', ''Bash'', ''Python'', ''Monitoring'', ''Prometheus'',
                   ''Grafana'', ''ELK Stack'', ''Nginx'', ''Apache'', ''Security''],
      fd_keywords = [''devops'', ''automation'', ''deployment'', ''infrastructure'', ''cloud'',
                     ''continuous'', ''integration'', ''monitoring'', ''reliability'', ''sre''],
      fd_weight = 1\<rparr>),
    (''Cloud Architect'',
     \<lparr>fd_skills = [''AWS'', ''Azure'', ''GCP'', ''Terraform'', ''CloudFormation'', ''Docker'', ''Kubernetes'',
                   ''Serverless'', ''Lambda'', ''Microservices'', ''API Gateway'', ''Load Balancing'',
                   ''Security'', ''Networking'', ''Python'', ''Java'', ''Node.js''],
      fd_keywords = [''cloud'', ''architect'', ''solution'', ''infrastructure'', ''scalability'',
                     ''migration'', ''serverless'', ''saas'', ''paas'', ''iaas''],
      fd_weight = 1\<rparr>),
    (''Full Stack Developer'',
     \<lparr>fd_skills = [''JavaScript'', ''React'', ''Angular'', ''Vue.js'', ''Node.js'', ''HTML5'', ''CSS3'',
                   ''Python'', ''Django'', ''Flask'', ''Java'', ''Spring'', ''SQL'', ''MongoDB'',
                   ''REST API'', ''GraphQL'', ''Git'', ''Docker'', ''AWS''],
      fd_keywords = [''full-stack'', ''fullstack'', ''frontend'', ''backend'', ''web'', ''application'',
                     ''responsive'', ''ui'', ''ux'', ''api''],
      fd_weight = 1\<rparr>),
    (''Mobile Developer'',
     \<lparr>fd_skills = [''Swift'', ''Kotlin'', ''React Native'', ''Flutter'', ''iOS'', ''Android'', ''Java'',
                   ''Objective-C'', ''Xcode'', ''Android Studio'', ''API'', ''Firebase'', ''SQLite''],
      fd_keywords = [''mobile'', ''ios'', ''android'', ''app'', ''application'', ''native'', ''cross-platform''],
      fd_weight = 1\<rparr>),
    (''Machine Learning Engineer'',
     \<lparr>fd_skills = [''Python'', ''TensorFlow'', ''PyTorch'', ''Scikit-learn'', ''MLflow'', ''Kubeflow'',
                   ''Deep Learning'', ''Neural Networks'', ''Computer Vision'', ''NLP'', ''CUDA'',
                   ''Docker'', ''Kubernetes'', ''AWS SageMaker'', ''Model Deployment''],
      fd_keywords = [''machine learning'', ''ml'', ''ai'', ''deep learning'', ''neural'', ''model'',
                     ''training'', ''deployment'', ''mlops'', ''production''],
      fd_weight = 1\<rparr>),
    (''Business Analyst'',
     \<lparr>fd_skills = [''SQL'', ''Excel'', ''Tableau'', ''Power BI'', ''Python'', ''R'', ''Jira'', ''Confluence'',
                   ''Agile'', ''Scrum'', ''Requirements Analysis'', ''Data Analysis'', ''Visio''],
      fd_keywords = [''business'', ''analyst'', ''requirements'', ''stakeholder'', ''process'',
                     ''improvement'', ''strategy'', ''reporting'', ''dashboard''],
      fd_weight = 1\<rparr>),
    (''QA Engineer'',
     \<lparr>fd_skills = [''Selenium'', ''Jest'', ''Cypress'', ''JUnit'', ''TestNG'', ''Postman'', ''JMeter'',
                   ''Python'', ''Java'', ''JavaScript'', ''Git'', ''CI/CD'', ''Automation Testing''],
      fd_keywords = [''qa'', ''quality'', ''testing'', ''test'', ''automation'', ''bug'', ''defect'',
                     ''validation'', ''regression'', ''performance''],
      fd_weight = 1\<rparr>)]"

subsection \<open>\<^verbatim>\<open>JobFieldRecommender.calculate_match_score\<close>\<close>

text \<open>
  The two \<^verbatim>\<open>for\<close> loops have one shape: every item of the field's list adds
  \<^verbatim>\<open>points / len(items)\<close> to \<^verbatim>\<open>max_score\<close>, and to \<^verbatim>\<open>score\<close> when the item is in the
  user's list. \<open>points\<close> is 60 for skills and 40 for keywords; \<open>items\<close> is the whole
  list (the divisor), \<open>todo\<close> what is left of it.
\<close>

fun score_loop ::
  "rat \<Rightarrow> string list \<Rightarrow> string list \<Rightarrow> string list \<Rightarrow> rat \<times> rat \<Rightarrow> error + rat \<times> rat" where
  "score_loop points user items [] (score, max_score) = Inr (score, max_score)"
| "score_loop points user items (x # todo) (score, max_score) =
     bind_err (py_truediv points (length items)) (\<lambda>share.
       let max_score = max_score + share in
       if x \<in> set user
       then bind_err (py_truediv points (length items)) (\<lambda>share'.
              score_loop points user items todo (score + share', max_score))
       else score_loop points user items todo (score, max_score))"

definition calculate_match_score ::
  "string list \<Rightarrow> keyword_entry list \<Rightarrow> job_field_data \<Rightarrow> error + int" where
  "calculate_match_score user_skills user_keywords job_field_data =
     (let user_skills_lower = map lower user_skills;
          user_keywords_lower = map (\<lambda>k. lower (word k)) user_keywords;
          field_skills_lower = map lower (fd_skills job_field_data)
      in bind_err (score_loop 60 user_skills_lower field_skills_lower field_skills_lower (0, 0))
           (\<lambda>(score, max_score).
              let field_keywords_lower = map lower (fd_keywords job_field_data)
              in bind_err (score_loop 40 user_keywords_lower field_keywords_lower
                             field_keywords_lower (score, max_score))
                   (\<lambda>(score, max_score).
                      let percentage = (if 0 < max_score then (score / max_score) * 100 else 0)
                      in Inr (min (py_round percentage) 100))))"

text \<open>
  What the two loops add up to, for the statements below: the points a user's list earns
  on a field's list, and the points the list is worth.
\<close>

definition share_sum :: "rat \<Rightarrow> string list \<Rightarrow> string list \<Rightarrow> rat" where
  "share_sum points user items =
     points / of_nat (length items) * of_nat (length (filter (\<lambda>x. x \<in> set user) items))"

definition full_sum :: "rat \<Rightarrow> string list \<Rightarrow> rat" where
  "full_sum points items = points / of_nat (length items) * of_nat (length items)"

text \<open>\<^verbatim>\<open>self.job_fields[name]\<close>\<close>

definition job_field :: "string \<Rightarrow> job_field_data option" where
  "job_field name = map_of job_fields name"

subsection \<open>\<^verbatim>\<open>get_job_search_url\<close> and \<^verbatim>\<open>get_job_recommendations\<close>\<close>

definition get_job_search_url :: "string \<Rightarrow> search_urls" where
  "get_job_search_url field_name =
     (let search_query = replace_char CHR '' '' ''+'' field_name
      in \<lparr>url_linkedin = ''https://www.linkedin.com/jobs/search/?keywords='' @ search_query,
          url_indeed = ''https://www.indeed.com/jobs?q='' @ search_query,
          url_glassdoor = ''https://www.glassdoor.com/Job/jobs.htm?sc.keyword='' @ search_query\<rparr>)"

text \<open>The bonus step of the loop body: ten points, capped, when the field's name occurs in the experience text.\<close>

definition experience_bonus :: "string \<Rightarrow> string \<Rightarrow> int \<Rightarrow> int" where
  "experience_bonus experience_text field_name match_score =
     (if experience_text \<noteq> []
      then (let experience_lower = lower experience_text
            in if str_contains experience_lower (lower field_name)
               then min (match_score + 10) 100 else match_score)
      else match_score)"

text \<open>The \<^verbatim>\<open>for\<close> loop over the taxonomy, before sorting; an exception of the scorer leaves the loop.\<close>

fun recommendations_loop ::
  "string list \<Rightarrow> keyword_entry list \<Rightarrow> string \<Rightarrow> (string \<times> job_field_data) list
     \<Rightarrow> recommendation list \<Rightarrow> error + recommendation list" where
  "recommendations_loop skills keywords experience_text [] recommendations = Inr recommendations"
| "recommendations_loop skills keywords experience_text ((field_name, field_data) # rest) recommendations =
     bind_err (calculate_match_score skills keywords field_data) (\<lambda>match_score.
       recommendations_loop skills keywords experience_text rest
         (recommendations @
            [\<lparr>field = field_name,
              match_percentage = experience_bonus experience_text field_name match_score,
              job_search_url = get_job_search_url field_name\<rparr>]))"

text \<open>
  \<^verbatim>\<open>list.sort(key=..., reverse=True)\<close> is a stable sort in descending key order: elements
  with equal keys keep their original relative order. This is the stable insertion sort
  \<^const>\<open>sort_key\<close> on the negated key.
\<close>

definition sort_reverse :: "('a \<Rightarrow> int) \<Rightarrow> 'a list \<Rightarrow> 'a list" where
  "sort_reverse key xs = sort_key (\<lambda>x. - key x) xs"

definition get_job_recommendations_in ::
  "(string \<times> job_field_data) list \<Rightarrow> string list \<Rightarrow> keyword_entry list \<Rightarrow> string
     \<Rightarrow> error + recommendation list" where
  "get_job_recommendations_in taxonomy skills keywords experience_text =
     bind_err (recommendations_loop skills keywords experience_text taxonomy [])
       (\<lambda>recommendations. Inr (sort_reverse match_percentage recommendations))"

definition get_job_recommendations ::
  "string list \<Rightarrow> keyword_entry list \<Rightarrow> string \<Rightarrow> error + recommendation list" where
  "get_job_recommendations = get_job_recommendations_in job_fields"

section \<open>\<^verbatim>\<open>ResumeParser\<close>\<close>

subsection \<open>String helpers\<close>

text \<open>
  The characters for which \<^verbatim>\<open>str.isspace\<close> holds (also the class \<^verbatim>\<open>\s\<close>): tab, line feed,
  vertical tab, form feed, carriage return, the four separators 0x1C to 0x1F, and space.
\<close>

definition whitespace :: string where
  "whitespace = [CHR 0x09, CHR 0x0A, CHR 0x0B, CHR 0x0C, CHR 0x0D,
                 CHR 0x1C, CHR 0x1D, CHR 0x1E, CHR 0x1F, CHR '' '']"

definition is_space :: "char \<Rightarrow> bool" where
  "is_space c = (c \<in> set whitespace)"

text \<open>The class \<^verbatim>\<open>\w\<close>: letters, digits and the underscore.\<close>

definition word_chars :: string where
  "word_chars = ascii_lowercase @ ascii_uppercase @ digits @ ''_''"

definition is_word_char :: "char \<Rightarrow> bool" where
  "is_word_char c = (c \<in> set word_chars)"

text \<open>\<^verbatim>\<open>str.strip()\<close>: whitespace removed at both ends.\<close>

definition strip :: "string \<Rightarrow> string" where
  "strip s = rev (dropWhile is_space (rev (dropWhile is_space s)))"

text \<open>
  Splitting at every character that satisfies \<open>sep\<close>, empty pieces kept; \<open>acc\<close> holds the
  current piece, reversed. \<^verbatim>\<open>text.split('\n')\<close> is \<open>split_on\<close> at the line feed.
\<close>

fun split_acc :: "(char \<Rightarrow> bool) \<Rightarrow> string \<Rightarrow> string \<Rightarrow> string list" where
  "split_acc sep acc [] = [rev acc]"
| "split_acc sep acc (c # cs) =
     (if sep c then rev acc # split_acc sep [] cs else split_acc sep (c # acc) cs)"

definition split_on :: "char \<Rightarrow> string \<Rightarrow> string list" where
  "split_on d s = split_acc (\<lambda>c. c = d) [] s"

definition split_lines :: "string \<Rightarrow> string list" where
  "split_lines text = split_on CHR 0x0A text"

text \<open>\<^verbatim>\<open>str.split()\<close> without argument: the maximal runs of non-whitespace.\<close>

definition split_whitespace :: "string \<Rightarrow> string list" where
  "split_whitespace s = filter (\<lambda>w. w \<noteq> []) (split_acc is_space [] s)"

text \<open>\<^verbatim>\<open>sep.join(xs)\<close>.\<close>

fun join :: "string \<Rightarrow> string list \<Rightarrow> string" where
  "join sep [] = []"
| "join sep [x] = x"
| "join sep (x # y # ys) = x @ sep @ join sep (y # ys)"

text \<open>
  \<^verbatim>\<open>str.title()\<close>: a cased character is upper-cased when the character before it is not
  cased, and lower-cased otherwise. \<open>prev\<close> tells whether the previous character is cased.
\<close>

definition is_cased :: "char \<Rightarrow> bool" where
  "is_cased c = (c \<in> set (ascii_lowercase @ ascii_uppercase))"

fun title_from :: "bool \<Rightarrow> string \<Rightarrow> string" where
  "title_from prev [] = []"
| "title_from prev (c # cs) =
     (if prev then lower_char c else upper_char c) # title_from (is_cased c) cs"

definition title :: "string \<Rightarrow> string" where
  "title s = title_from False s"

text \<open>\<^verbatim>\<open>s[0]\<close>: raises \<^verbatim>\<open>IndexError\<close> on the empty string.\<close>

definition first_char :: "string \<Rightarrow> error + char" where
  "first_char s = (case s of [] \<Rightarrow> Inl IndexError | c # _ \<Rightarrow> Inr c)"

subsection \<open>Regular expressions\<close>

text \<open>
  The patterns of the source use character classes, literals, \<^verbatim>\<open>\b\<close>, concatenation,
  alternation, \<^verbatim>\<open>?\<close>, and the greedy repetitions \<^verbatim>\<open>+\<close>, \<^verbatim>\<open>*\<close>, \<^verbatim>\<open>{n}\<close>, \<^verbatim>\<open>{n,}\<close> of a single
  character class. A class is the list of its characters.
\<close>

datatype rx =
    Eps
  | Cls string
  | WordB
  | Seq rx rx
  | Alt rx rx
  | Opt rx
  | Times nat string
  | Rep nat string

text \<open>
  A cursor is a position in the subject: the character just before it (if any) and the
  text from it on.
\<close>

type_synonym cursor = "char option \<times> string"

text \<open>One character against a class; under \<^verbatim>\<open>re.IGNORECASE\<close> (\<open>ic\<close>) also in its other case.\<close>

definition chr_match :: "bool \<Rightarrow> string \<Rightarrow> char \<Rightarrow> bool" where
  "chr_match ic cls c =
     (c \<in> set cls \<or> (ic \<and> (lower_char c \<in> set cls \<or> upper_char c \<in> set cls)))"

text \<open>\<^verbatim>\<open>\b\<close> holds where exactly one side of the position is a word character.\<close>

fun word_boundary :: "cursor \<Rightarrow> bool" where
  "word_boundary (p, s) =
     ((case p of None \<Rightarrow> False | Some c \<Rightarrow> is_word_char c)
      \<noteq> (case s of [] \<Rightarrow> False | c # _ \<Rightarrow> is_word_char c))"

text \<open>The cursors after 0, 1, 2, ... characters of the class, as far as the class goes.\<close>

fun run_cursors :: "bool \<Rightarrow> string \<Rightarrow> char option \<Rightarrow> string \<Rightarrow> cursor list" where
  "run_cursors ic cls p [] = [(p, [])]"
| "run_cursors ic cls p (c # cs) =
     (p, c # cs) # (if chr_match ic cls c then run_cursors ic cls (Some c) cs else [])"

text \<open>
  All the cursors at which a match of the pattern that starts at the given cursor can end, in
  the order a backtracking matcher tries them: the first is the end of the match that
  \<^verbatim>\<open>re\<close> reports. Greedy repetition tries the longest run first.
\<close>

fun rx_ends :: "bool \<Rightarrow> rx \<Rightarrow> cursor \<Rightarrow> cursor list" where
  "rx_ends ic Eps cur = [cur]"
| "rx_ends ic (Cls cls) (p, s) =
     (case s of [] \<Rightarrow> []
      | c # cs \<Rightarrow> if chr_match ic cls c then [(Some c, cs)] else [])"
| "rx_ends ic WordB cur = (if word_boundary cur then [cur] else [])"
| "rx_ends ic (Seq a b) cur = concat (map (rx_ends ic b) (rx_ends ic a cur))"
| "rx_ends ic (Alt a b) cur = rx_ends ic a cur @ rx_ends ic b cur"
| "rx_ends ic (Opt a) cur = rx_ends ic a cur @ [cur]"
| "rx_ends ic (Times n cls) (p, s) =
     (case drop n (run_cursors ic cls p s) of [] \<Rightarrow> [] | e # _ \<Rightarrow> [e])"
| "rx_ends ic (Rep n cls) (p, s) = rev (drop n (run_cursors ic cls p s))"

text \<open>
  \<^verbatim>\<open>re.search\<close>: the start positions are tried from left to right, the end of the text
  included; the result is the cursor where the match starts and the one where it ends.
\<close>

fun rx_search :: "bool \<Rightarrow> rx \<Rightarrow> char option \<Rightarrow> string \<Rightarrow> (cursor \<times> cursor) option" where
  "rx_search ic r p [] =
     (case rx_ends ic r (p, []) of [] \<Rightarrow> None | e # _ \<Rightarrow> Some ((p, []), e))"
| "rx_search ic r p (c # cs) =
     (case rx_ends ic r (p, c # cs) of
        [] \<Rightarrow> rx_search ic r (Some c) cs
      | e # _ \<Rightarrow> Some ((p, c # cs), e))"

text \<open>\<^verbatim>\<open>bool(re.search(pattern, s))\<close> and \<^verbatim>\<open>re.search(pattern, s).group()\<close>.\<close>

definition re_search :: "bool \<Rightarrow> rx \<Rightarrow> string \<Rightarrow> bool" where
  "re_search ic r s = (rx_search ic r None s \<noteq> None)"

definition re_search_group :: "bool \<Rightarrow> rx \<Rightarrow> string \<Rightarrow> string option" where
  "re_search_group ic r s =
     (case rx_search ic r None s of
        None \<Rightarrow> None
      | Some ((p, s1), (q, s2)) \<Rightarrow> Some (take (length s1 - length s2) s1))"

text \<open>
  \<^verbatim>\<open>re.findall\<close>: the non-overlapping matches from left to right. \<open>skip\<close> counts the
  characters of the previous match still to be passed over; after a match of \<open>n\<close>
  characters the scan resumes \<open>n\<close> characters on (one on, after an empty match).
\<close>

fun findall_from :: "bool \<Rightarrow> rx \<Rightarrow> nat \<Rightarrow> char option \<Rightarrow> string \<Rightarrow> string list" where
  "findall_from ic r skip p [] =
     (if skip = 0 \<and> rx_ends ic r (p, []) \<noteq> [] then [[]] else [])"
| "findall_from ic r (Suc k) p (c # cs) = findall_from ic r k (Some c) cs"
| "findall_from ic r 0 p (c # cs) =
     (case rx_ends ic r (p, c # cs) of
        [] \<Rightarrow> findall_from ic r 0 (Some c) cs
      | (q, s2) # _ \<Rightarrow>
          (let n = length (c # cs) - length s2
           in take n (c # cs) # findall_from ic r (n - 1) (Some c) cs))"

definition re_findall :: "bool \<Rightarrow> rx \<Rightarrow> string \<Rightarrow> string list" where
  "re_findall ic r s = findall_from ic r 0 None s"

text \<open>Building blocks of the patterns.\<close>

fun lit :: "string \<Rightarrow> rx" where
  "lit [] = Eps"
| "lit (c # cs) = Seq (Cls [c]) (lit cs)"

fun any_of :: "string \<Rightarrow> string list \<Rightarrow> rx" where
  "any_of l [] = lit l"
| "any_of l (m # ms) = Alt (lit l) (any_of m ms)"

fun seqs :: "rx list \<Rightarrow> rx" where
  "seqs [] = Eps"
| "seqs [r] = r"
| "seqs (r # q # qs) = Seq r (seqs (q # qs))"

text \<open>\<^verbatim>\<open>r'\b' + re.escape(s) + r'\b'\<close>: the literal \<open>s\<close> between two word boundaries.\<close>

definition whole_word :: "string \<Rightarrow> rx" where
  "whole_word s = seqs [WordB, lit s, WordB]"

subsection \<open>The knowledge base of \<^verbatim>\<open>ResumeParser.__init__\<close>\<close>

definition skills_database :: "(string \<times> string list) list" where
  "skills_database =
   [(''programming_languages'',
     [''Python'', ''JavaScript'', ''Java'', ''C++'', ''C#'', ''PHP'', ''Ruby'', ''Go'', ''Swift'', ''Kotlin'',
      ''TypeScript'', ''Scala'', ''R'', ''MATLAB'', ''Perl'', ''Rust'', ''Dart'', ''Objective-C'', ''C'',
      ''VB.NET'', ''F#'', ''Haskell'', ''Clojure'', ''Erlang'', ''Elixir'', ''Lua'', ''Shell'', ''Bash'']),
    (''web_technologies'',
     [''React'', ''Angular'', ''Vue.js'', ''Node.js'', ''Express.js'', ''Django'', ''Flask'', ''Spring'',
      ''ASP.NET'', ''Laravel'', ''Ruby on Rails'', ''jQuery'', ''Bootstrap'', ''Tailwind CSS'',
      ''HTML5'', ''CSS3'', ''SASS'', ''LESS'', ''Webpack'', ''Vite'', ''Next.js'', ''Nuxt.js'',
      ''Svelte'', ''Ember.js'', ''Backbone.js'', ''Redux'', ''MobX'', ''GraphQL'', ''REST API'']),
    (''databases'',
     [''MySQL'', ''PostgreSQL'', ''MongoDB'', ''SQLite'', ''Redis'', ''Oracle'', ''SQL Server'',
      ''Cassandra'', ''DynamoDB'', ''Firebase'', ''Elasticsearch'', ''Neo4j'', ''CouchDB'',
      ''MariaDB'', ''Amazon RDS'', ''Google Cloud SQL'', ''Azure SQL Database'']),
    (''cloud_platforms'',
     [''AWS'', ''Azure'', ''Google Cloud Platform'', ''GCP'', ''Digital Ocean'', ''Heroku'',
      ''Vercel'', ''Netlify'', ''Firebase'', ''Supabase'', ''PlanetScale'', ''Railway'']),
    (''devops_tools'',
     [''Docker'', ''Kubernetes'', ''Jenkins'', ''Git'', ''GitHub'', ''GitLab'', ''Bitbucket'',
      ''CI/CD'', ''Terraform'', ''Ansible'', ''Chef'', ''Puppet'', ''Nginx'', ''Apache'',
      ''Linux'', ''Ubuntu'', ''CentOS'', ''RedHat'', ''Vagrant'', ''CircleCI'', ''Travis CI'']),
    (''data_science_ml'',
     [''Machine Learning'', ''Deep Learning'', ''TensorFlow'', ''PyTorch'', ''Scikit-learn'',
      ''Pandas'', ''NumPy'', ''Matplotlib'', ''Seaborn'', ''Jupyter'', ''Tableau'', ''Power BI'',
      ''Apache Spark'', ''Hadoop'', ''Kafka'', ''Airflow'', ''MLflow'', ''Kubeflow'',
      ''OpenCV'', ''NLTK'', ''spaCy'', ''Hugging Face'', ''Computer Vision'', ''NLP'']),
    (''soft_skills'',
     [''Leadership'', ''Team Management'', ''Communication'', ''Problem Solving'',
      ''Critical Thinking'', ''Analytical Skills'', ''Creativity'', ''Adaptability'',
      ''Time Management'', ''Strategic Planning'', ''Negotiation'', ''Presentation'',
      ''Training'', ''Mentoring'', ''Customer Service'', ''Sales'', ''Marketing''])]"

definition job_keywords :: "string list" where
  "job_keywords =
   [''experienced'', ''certified'', ''expert'', ''specialist'', ''manager'', ''developer'',
    ''engineer'', ''architect'', ''analyst'', ''consultant'', ''lead'', ''senior'', ''junior'',
    ''professional'', ''agile'', ''scrum'', ''project'', ''team'', ''client'', ''business'',
    ''technical'', ''solution'', ''implementation'', ''development'', ''design'', ''analysis'']"

text \<open>\<^verbatim>\<open>self.all_skills\<close>: the categories' lists appended in the order of the dict.\<close>

definition all_skills :: "string list" where
  "all_skills = concat (map snd skills_database)"

subsection \<open>\<^verbatim>\<open>extract_contact_info\<close>\<close>

record contact_info =
  ci_email :: "string option"
  ci_phone :: "string option"
  ci_linkedin :: "string option"
  ci_name :: "string option"

text \<open>\<^verbatim>\<open>r'\b[A-Za-z0-9._%+-]+@[A-Za-z0-9.-]+\.[A-Z|a-z]{2,}\b'\<close>\<close>

definition email_pattern :: rx where
  "email_pattern =
     seqs [WordB,
           Rep 1 (ascii_uppercase @ ascii_lowercase @ digits @ ''._%+-''),
           lit ''@'',
           Rep 1 (ascii_uppercase @ ascii_lowercase @ digits @ ''.-''),
           lit ''.'',
           Rep 2 (ascii_uppercase @ ''|'' @ ascii_lowercase),
           WordB]"

text \<open>
  \<^verbatim>\<open>r'(\+?1?[-.\s]?)?\(?[0-9]{3}\)?[-.\s]?[0-9]{3}[-.\s]?[0-9]{4}'\<close> and
  \<^verbatim>\<open>r'\b\d{3}[-.]?\d{3}[-.]?\d{4}\b'\<close>
\<close>

definition phone_patterns :: "rx list" where
  "phone_patterns =
     [seqs [Opt (seqs [Opt (lit ''+''), Opt (lit ''1''), Opt (Cls (''-.'' @ whitespace))]),
            Opt (lit ''(''), Times 3 digits, Opt (lit '')''),
            Opt (Cls (''-.'' @ whitespace)), Times 3 digits,
            Opt (Cls (''-.'' @ whitespace)), Times 4 digits],
      seqs [WordB, Times 3 digits, Opt (Cls ''-.''), Times 3 digits, Opt (Cls ''-.''),
            Times 4 digits, WordB]]"

text \<open>\<^verbatim>\<open>r'linkedin\.com/in/[\w-]+'\<close>, searched with \<^verbatim>\<open>re.IGNORECASE\<close>.\<close>

definition linkedin_pattern :: rx where
  "linkedin_pattern = seqs [lit ''linkedin.com/in/'', Rep 1 (word_chars @ ''-'')]"

text \<open>The loop over the phone patterns: the first pattern that matches decides.\<close>

fun phone_loop :: "rx list \<Rightarrow> string \<Rightarrow> string option" where
  "phone_loop [] text = None"
| "phone_loop (pattern # rest) text =
     (case re_search_group False pattern text of
        Some m \<Rightarrow> Some m
      | None \<Rightarrow> phone_loop rest text)"

text \<open>
  The loop over the first five non-blank lines that looks for the name. \<^verbatim>\<open>line[0]\<close> is
  read only when the two length tests hold.
\<close>

fun name_loop :: "string list \<Rightarrow> error + string option" where
  "name_loop [] = Inr None"
| "name_loop (line # rest) =
     (if \<exists>header \<in> set [''objective'', ''summary'', ''experience'', ''education''].
           str_contains (lower line) header
      then name_loop rest
      else if str_contains line ''@'' \<or> re_search False (Times 3 digits) line
      then name_loop rest
      else if length (split_whitespace line) \<le> 4 \<and> length line < 50
      then bind_err (first_char line) (\<lambda>c.
             if c \<in> set ascii_uppercase then Inr (Some line) else name_loop rest)
      else name_loop rest)"

definition extract_contact_info :: "string \<Rightarrow> error + contact_info" where
  "extract_contact_info text =
     (let email_match = re_search_group False email_pattern text;
          phone_match = phone_loop phone_patterns text;
          linkedin_match = re_search_group True linkedin_pattern text;
          lines = filter (\<lambda>line. line \<noteq> []) (map strip (split_lines text))
      in bind_err (name_loop (take 5 lines)) (\<lambda>name.
           Inr \<lparr>ci_email = email_match, ci_phone = phone_match,
                ci_linkedin = linkedin_match, ci_name = name\<rparr>))"

subsection \<open>\<^verbatim>\<open>extract_skills\<close>\<close>

text \<open>The \<^verbatim>\<open>for\<close> loop: the skills whose lower-cased name occurs as a whole word in the lower-cased text.\<close>

definition found_skills :: "string \<Rightarrow> string list" where
  "found_skills text =
     (let text_lower = lower text
      in filter (\<lambda>skill. re_search False (whole_word (lower skill)) text_lower) all_skills)"

text \<open>
  \<^verbatim>\<open>list(set(found_skills))\<close>: the distinct skills found. Python leaves the order of the
  resulting list open; the model keeps the order of \<open>all_skills\<close>, and no statement below
  depends on it.
\<close>

definition extract_skills :: "string \<Rightarrow> string list" where
  "extract_skills text = remdups (found_skills text)"

subsection \<open>\<^verbatim>\<open>extract_experience\<close>\<close>

text \<open>
  \<^verbatim>\<open>r'\b(experience|employment|work history)\b'\<close> and
  \<^verbatim>\<open>r'\b(education|skills|certifications)\b'\<close>, both searched with \<^verbatim>\<open>re.IGNORECASE\<close>, and
  \<^verbatim>\<open>r'\b(\d{4}|\w+\s*(Inc|LLC|Corp|Company|Ltd))\b'\<close>, searched as it is.
\<close>

definition experience_header :: rx where
  "experience_header = seqs [WordB, any_of ''experience'' [''employment'', ''work history''], WordB]"

definition experience_stop :: rx where
  "experience_stop = seqs [WordB, any_of ''education'' [''skills'', ''certifications''], WordB]"

definition entry_start :: rx where
  "entry_start =
     seqs [WordB,
           Alt (Times 4 digits)
               (seqs [Rep 1 word_chars, Rep 0 whitespace,
                      any_of ''Inc'' [''LLC'', ''Corp'', ''Company'', ''Ltd'']]),
           WordB]"

text \<open>
  The \<^verbatim>\<open>for\<close> loop over the lines, with its three variables; it returns \<open>experience\<close> and
  \<open>current_exp\<close> as they are when the loop ends or breaks.
\<close>

fun experience_loop ::
  "string list \<Rightarrow> bool \<Rightarrow> string list \<Rightarrow> string list \<Rightarrow> string list \<times> string list" where
  "experience_loop [] exp_started current_exp experience = (experience, current_exp)"
| "experience_loop (raw # rest) exp_started current_exp experience =
     (let line = strip raw in
      if line = [] then experience_loop rest exp_started current_exp experience
      else if re_search True experience_header line
      then experience_loop rest True current_exp experience
      else if exp_started \<and> re_search True experience_stop line
      then (experience, current_exp)
      else if exp_started
      then (if re_search False entry_start line
            then (if current_exp \<noteq> []
                  then experience_loop rest exp_started [line] (experience @ [join '' '' current_exp])
                  else experience_loop rest exp_started (current_exp @ [line]) experience)
            else if current_exp \<noteq> []
            then experience_loop rest exp_started (current_exp @ [line]) experience
            else experience_loop rest exp_started current_exp experience)
      else experience_loop rest exp_started current_exp experience)"

definition extract_experience :: "string \<Rightarrow> string list" where
  "extract_experience text =
     (case experience_loop (split_lines text) False [] [] of
        (experience, current_exp) \<Rightarrow>
          take 5 (if current_exp \<noteq> [] then experience @ [join '' '' current_exp] else experience))"

subsection \<open>\<^verbatim>\<open>extract_education\<close>\<close>

text \<open>
  \<^verbatim>\<open>r'\b(Bachelor|Master|PhD|Ph\.D|MBA|Associate|Diploma)\b'\<close> and
  \<^verbatim>\<open>r'\b(B\.S\.|B\.A\.|M\.S\.|M\.A\.|B\.E\.|B\.Tech|M\.Tech)\b'\<close>
\<close>

definition degree_patterns :: "rx list" where
  "degree_patterns =
     [seqs [WordB, any_of ''Bachelor'' [''Master'', ''PhD'', ''Ph.D'', ''MBA'', ''Associate'', ''Diploma''], WordB],
      seqs [WordB, any_of ''B.S.'' [''B.A.'', ''M.S.'', ''M.A.'', ''B.E.'', ''B.Tech'', ''M.Tech''], WordB]]"

definition edu_keywords :: "string list" where
  "edu_keywords = [''university'', ''college'', ''institute'', ''school'', ''academy'']"

definition education_header :: rx where
  "education_header = seqs [WordB, lit ''education'', WordB]"

definition education_stop :: rx where
  "education_stop =
     seqs [WordB, any_of ''experience'' [''skills'', ''certifications'', ''projects''], WordB]"

definition has_degree :: "string \<Rightarrow> bool" where
  "has_degree line = (\<exists>pattern \<in> set degree_patterns. re_search True pattern line)"

fun education_loop :: "string list \<Rightarrow> bool \<Rightarrow> string list \<Rightarrow> string list" where
  "education_loop [] edu_started education = education"
| "education_loop (raw # rest) edu_started education =
     (let line = strip raw in
      if line = [] then education_loop rest edu_started education
      else if re_search True education_header line
      then education_loop rest True education
      else if edu_started \<and> re_search True education_stop line
      then education
      else if edu_started \<or> has_degree line
      then (if (\<exists>keyword \<in> set edu_keywords. str_contains (lower line) keyword) \<or> has_degree line
            then education_loop rest edu_started (education @ [line])
            else education_loop rest edu_started education)
      else education_loop rest edu_started education)"

definition extract_education :: "string \<Rightarrow> string list" where
  "extract_education text = take 3 (education_loop (split_lines text) False [])"

subsection \<open>\<^verbatim>\<open>extract_keywords\<close>\<close>

text \<open>\<^verbatim>\<open>r'\b[a-z]+\b'\<close>\<close>

definition word_pattern :: rx where
  "word_pattern = seqs [WordB, Rep 1 ascii_lowercase, WordB]"

text \<open>The loop that keeps the relevant words.\<close>

definition relevant :: "string \<Rightarrow> bool" where
  "relevant w =
     (if w \<in> set job_keywords \<and> 3 < length w then True
      else w \<in> set (map lower all_skills))"

text \<open>
  \<^verbatim>\<open>Counter(words)\<close>: the counts, the keys in the order of their first occurrence.
  \<^verbatim>\<open>most_common(n)\<close>: the \<open>n\<close> largest counts, equal counts in the order of the counter.
\<close>

fun counter_add :: "(string \<times> nat) list \<Rightarrow> string \<Rightarrow> (string \<times> nat) list" where
  "counter_add [] w = [(w, 1)]"
| "counter_add ((k, n) # kvs) w =
     (if k = w then (k, n + 1) # kvs else (k, n) # counter_add kvs w)"

definition counter :: "string list \<Rightarrow> (string \<times> nat) list" where
  "counter ws = foldl counter_add [] ws"

definition most_common :: "nat \<Rightarrow> (string \<times> nat) list \<Rightarrow> (string \<times> nat) list" where
  "most_common n c = take n (sort_reverse (\<lambda>kv. int (snd kv)) c)"

definition extract_keywords :: "string \<Rightarrow> keyword_entry list" where
  "extract_keywords text =
     (let text_lower = lower text;
          words = re_findall False word_pattern text_lower;
          relevant_words = filter relevant words;
          word_freq = counter relevant_words
      in map (\<lambda>(w, n). \<lparr>word = title w, count = n\<rparr>) (most_common 20 word_freq))"

subsection \<open>\<^verbatim>\<open>parse_resume\<close>\<close>

record extraction =
  pr_contact_info :: contact_info
  pr_skills :: "string list"
  pr_experience :: "string list"
  pr_education :: "string list"
  pr_keywords :: "keyword_entry list"
  pr_raw_text :: string

text \<open>
  The three readers \<^verbatim>\<open>extract_text_from_pdf\<close>, \<^verbatim>\<open>extract_text_from_docx\<close> and
  \<^verbatim>\<open>extract_text_from_txt\<close> read the file system through external libraries; they are
  parameters: each maps a path to the text read, or to the error it raises.
\<close>

record readers =
  extract_text_from_pdf :: "string \<Rightarrow> error + string"
  extract_text_from_docx :: "string \<Rightarrow> error + string"
  extract_text_from_txt :: "string \<Rightarrow> error + string"

text \<open>The first part of \<^verbatim>\<open>parse_resume\<close>: the reader is chosen by the file extension.\<close>

definition read_text :: "readers \<Rightarrow> string \<Rightarrow> string \<Rightarrow> error + string" where
  "read_text rd file_path filename =
     (let file_extension = last (split_on CHR ''.'' (lower filename))
      in if file_extension = ''pdf'' then extract_text_from_pdf rd file_path
         else if file_extension \<in> set [''docx'', ''doc''] then extract_text_from_docx rd file_path
         else if file_extension = ''txt'' then extract_text_from_txt rd file_path
         else Inl (ValueError (''Unsupported file format: '' @ file_extension)))"

text \<open>
  The second part: the blank-text check, then the dict literal, whose five extractor calls
  are evaluated in the order written; an exception raised by one of them leaves
  \<^verbatim>\<open>parse_resume\<close> at once, there being no handler around them. The extractors are
  parameters of \<open>parse_text_with\<close>, so that this composition is stated once for all of them.
\<close>

definition parse_text_with ::
  "(string \<Rightarrow> error + contact_info) \<Rightarrow> (string \<Rightarrow> error + string list)
     \<Rightarrow> (string \<Rightarrow> error + string list) \<Rightarrow> (string \<Rightarrow> error + string list)
     \<Rightarrow> (string \<Rightarrow> error + keyword_entry list) \<Rightarrow> string \<Rightarrow> error + extraction" where
  "parse_text_with contact skills experience education keywords text =
     (if strip text = [] then Inl (ValueError ''Could not extract text from file'')
      else bind_err (contact text) (\<lambda>c.
           bind_err (skills text) (\<lambda>s.
           bind_err (experience text) (\<lambda>x.
           bind_err (education text) (\<lambda>d.
           bind_err (keywords text) (\<lambda>k.
             Inr \<lparr>pr_contact_info = c, pr_skills = s, pr_experience = x, pr_education = d,
                  pr_keywords = k, pr_raw_text = take 1000 text\<rparr>))))))"

definition parse_text :: "string \<Rightarrow> error + extraction" where
  "parse_text =
     parse_text_with extract_contact_info (\<lambda>text. Inr (extract_skills text))
       (\<lambda>text. Inr (extract_experience text)) (\<lambda>text. Inr (extract_education text))
       (\<lambda>text. Inr (extract_keywords text))"

definition parse_resume :: "readers \<Rightarrow> string \<Rightarrow> string \<Rightarrow> error + extraction" where
  "parse_resume rd file_path filename = bind_err (read_text rd file_path filename) parse_text"

section \<open>Properties of the recommender\<close>

subsection \<open>The scoring loops in closed form\<close>

lemma score_loop_Nil: "score_loop p user items [] acc = Inr acc"
  by (cases acc) simp

lemma score_loop_closed:
  "items \<noteq> [] \<Longrightarrow>
   score_loop p user items todo (s, m) =
     Inr (s + p / of_nat (length items) * of_nat (length (filter (\<lambda>x. x \<in> set user) todo)),
          m + p / of_nat (length items) * of_nat (length todo))"
  by (induction todo arbitrary: s m) (simp_all add: bind_err_def py_truediv_def field_simps)

lemma score_loop_all:
  "score_loop p user items items (s, m) = Inr (s + share_sum p user items, m + full_sum p items)"
proof (cases "items = []")
  case True
  then show ?thesis by (simp add: share_sum_def full_sum_def)
next
  case False
  then show ?thesis by (simp add: score_loop_closed share_sum_def full_sum_def)
qed

lemma full_sum_eq: "full_sum p items = (if items = [] then 0 else p)"
  by (simp add: full_sum_def)

lemma share_sum_bounds: "0 \<le> p \<Longrightarrow> 0 \<le> share_sum p user items \<and> share_sum p user items \<le> full_sum p items"
proof -
  assume p: "0 \<le> p"
  have "length (filter (\<lambda>x. x \<in> set user) items) \<le> length items" by simp
  then have le: "(of_nat (length (filter (\<lambda>x. x \<in> set user) items)) :: rat) \<le> of_nat (length items)"
    by (simp only: of_nat_le_iff)
  have d: "0 \<le> p / of_nat (length items)" using p by simp
  have nn: "0 \<le> p / of_nat (length items) * of_nat (length (filter (\<lambda>x. x \<in> set user) items))"
    using d by (rule mult_nonneg_nonneg) simp
  show ?thesis unfolding share_sum_def full_sum_def
    using mult_left_mono[OF le d] nn by blast
qed

lemma share_sum_all:
  "set items \<subseteq> set user \<Longrightarrow> share_sum p user items = full_sum p items"
proof -
  assume "set items \<subseteq> set user"
  then have "filter (\<lambda>x. x \<in> set user) items = items" by (auto simp: filter_id_conv)
  then show ?thesis by (simp add: share_sum_def full_sum_def)
qed

lemma share_sum_none: "share_sum p [] items = 0"
  by (simp add: share_sum_def)

lemma calculate_match_score_eq:
  "calculate_match_score us uk fd =
     (let score = share_sum 60 (map lower us) (map lower (fd_skills fd))
                  + share_sum 40 (map (\<lambda>k. lower (word k)) uk) (map lower (fd_keywords fd));
          max_score = full_sum 60 (map lower (fd_skills fd)) + full_sum 40 (map lower (fd_keywords fd))
      in Inr (min (py_round (if 0 < max_score then score / max_score * 100 else 0)) 100))"
  by (simp add: calculate_match_score_def Let_def score_loop_all bind_err_def)

subsection \<open>Rounding\<close>

lemma py_round_nonneg: "0 \<le> x \<Longrightarrow> 0 \<le> py_round x"
  by (auto simp: py_round_def Let_def)

lemma py_round_of_int: "py_round (of_int n) = n"
  by (simp add: py_round_def Let_def)

lemma py_round_0: "py_round 0 = 0"
  using py_round_of_int[of 0] by simp

lemma py_round_100: "py_round 100 = 100"
  using py_round_of_int[of 100] by simp

lemma py_round_100_11: "py_round (100 / 11) = 9"
  by code_simp

subsection \<open>The score of one field\<close>

lemma calculate_match_score_range:
  "\<exists>v. calculate_match_score us uk fd = Inr v \<and> 0 \<le> v \<and> v \<le> 100"
proof -
  let ?s = "share_sum 60 (map lower us) (map lower (fd_skills fd))
                  + share_sum 40 (map (\<lambda>k. lower (word k)) uk) (map lower (fd_keywords fd))"
  let ?m = "full_sum 60 (map lower (fd_skills fd)) + full_sum 40 (map lower (fd_keywords fd))"
  have "0 \<le> ?s" using share_sum_bounds[of 60] share_sum_bounds[of 40] by (simp add: add_nonneg_nonneg)
  then have "0 \<le> (if 0 < ?m then ?s / ?m * 100 else 0)" by simp
  then have "0 \<le> py_round (if 0 < ?m then ?s / ?m * 100 else 0)" by (rule py_round_nonneg)
  then show ?thesis by (simp add: calculate_match_score_eq Let_def)
qed

lemma calculate_match_score_full:
  assumes "set (map lower (fd_skills fd)) \<subseteq> set (map lower us)"
    and "set (map lower (fd_keywords fd)) \<subseteq> set (map (\<lambda>k. lower (word k)) uk)"
    and "fd_skills fd \<noteq> [] \<or> fd_keywords fd \<noteq> []"
  shows "calculate_match_score us uk fd = Inr 100"
proof -
  let ?m = "full_sum 60 (map lower (fd_skills fd)) + full_sum 40 (map lower (fd_keywords fd))"
  have pos: "0 < ?m" using assms(3) by (auto simp: full_sum_eq)
  then have hundred: "?m / ?m * 100 = 100" by simp
  have "calculate_match_score us uk fd = Inr (min (py_round (?m / ?m * 100)) 100)"
    unfolding calculate_match_score_eq Let_def share_sum_all[OF assms(1)] share_sum_all[OF assms(2)]
    using pos by (simp only: if_True)
  then show ?thesis by (simp only: hundred py_round_100 min.idem)
qed

lemma calculate_match_score_nothing: "calculate_match_score [] [] fd = Inr 0"
  by (simp add: calculate_match_score_eq Let_def share_sum_none py_round_0)

lemma experience_bonus_range: "0 \<le> v \<Longrightarrow> v \<le> 100 \<Longrightarrow> 0 \<le> experience_bonus e n v \<and> experience_bonus e n v \<le> 100"
  by (simp add: experience_bonus_def Let_def)

lemma experience_bonus_empty: "experience_bonus [] n v = v"
  by (simp add: experience_bonus_def)

subsection \<open>The taxonomy\<close>

lemma job_fields_names:
  "map fst job_fields = [''Software Engineer'', ''Data Scientist'', ''Data Engineer'', ''DevOps Engineer'',
     ''Cloud Architect'', ''Full Stack Developer'', ''Mobile Developer'', ''Machine Learning Engineer'',
     ''Business Analyst'', ''QA Engineer'']"
  by (simp add: job_fields_def)

lemma distinct_job_fields: "distinct (map fst job_fields)"
  unfolding job_fields_names by simp

lemma field_data_nonempty:
  "(name, fd) \<in> set job_fields \<Longrightarrow> fd_skills fd \<noteq> [] \<and> fd_keywords fd \<noteq> []"
  by (auto simp: job_fields_def)

lemma se_lookup: "job_field ''Software Engineer'' = Some (snd (hd job_fields))"
  by code_simp

lemma se_lengths:
  "length (map lower (fd_skills (snd (hd job_fields)))) = 22"
  "length (map lower (fd_keywords (snd (hd job_fields)))) = 11"
  by code_simp+

lemma se_skill_hits:
  "length (filter (\<lambda>x. x \<in> set [lower ''Python'', lower ''Docker''])
     (map lower (fd_skills (snd (hd job_fields))))) = 2"
  by code_simp

lemma se_keyword_hits:
  "length (filter (\<lambda>x. x = ''developer'') (map lower (fd_keywords (snd (hd job_fields))))) = 1"
  by code_simp

lemma se_example_keywords:
  "set (map (\<lambda>k. lower (word k)) [\<lparr>word = ''Developer'', count = 2\<rparr>, \<lparr>word = ''Team'', count = 1\<rparr>])
      \<inter> set (map lower (fd_keywords (snd (hd job_fields)))) = {''developer''}"
  by code_simp

lemma qa_member: "(''QA Engineer'', snd (last job_fields)) \<in> set job_fields"
  by code_simp

lemma qa_skills_covered:
  "\<forall>s \<in> set (fd_skills (snd (last job_fields))). lower s \<in> set (map lower
        [''git'', ''JAVA'', ''python'', ''selenium'', ''jest'', ''cypress'', ''junit'', ''testng'',
         ''postman'', ''jmeter'', ''javascript'', ''ci/cd'', ''automation testing'', ''Excel''])"
  by code_simp

lemma qa_keywords_covered:
  "\<forall>k \<in> set (fd_keywords (snd (last job_fields))). lower k \<in> set (map (\<lambda>e. lower (word e))
        [\<lparr>word = ''Testing'', count = 4\<rparr>, \<lparr>word = ''Qa'', count = 3\<rparr>,
         \<lparr>word = ''Quality'', count = 2\<rparr>, \<lparr>word = ''Test'', count = 2\<rparr>,
         \<lparr>word = ''Automation'', count = 1\<rparr>, \<lparr>word = ''Bug'', count = 1\<rparr>,
         \<lparr>word = ''Defect'', count = 1\<rparr>, \<lparr>word = ''Validation'', count = 1\<rparr>,
         \<lparr>word = ''Regression'', count = 1\<rparr>, \<lparr>word = ''Performance'', count = 1\<rparr>,
         \<lparr>word = ''Team'', count = 1\<rparr>])"
  by code_simp

subsection \<open>The loop over the taxonomy and the descending stable sort\<close>

lemma recommendations_loop_ok:
  "\<exists>recs. recommendations_loop s k e fs acc = Inr (acc @ recs)
      \<and> map field recs = map fst fs
      \<and> (\<forall>r \<in> set recs. 0 \<le> match_percentage r \<and> match_percentage r \<le> 100)"
proof (induction fs arbitrary: acc)
  case Nil
  then show ?case by simp
next
  case (Cons f fs)
  obtain n d where f: "f = (n, d)" by (cases f)
  obtain v where v: "calculate_match_score s k d = Inr v" "0 \<le> v" "v \<le> 100"
    using calculate_match_score_range by blast
  let ?r = "\<lparr>field = n, match_percentage = experience_bonus e n v, job_search_url = get_job_search_url n\<rparr>"
  obtain recs where recs: "recommendations_loop s k e fs (acc @ [?r]) = Inr ((acc @ [?r]) @ recs)"
      "map field recs = map fst fs"
      "\<forall>r \<in> set recs. 0 \<le> match_percentage r \<and> match_percentage r \<le> 100"
    using Cons.IH by blast
  have "recommendations_loop s k e (f # fs) acc = Inr (acc @ (?r # recs))"
    using recs(1) by (simp add: f v(1) bind_err_def)
  moreover have "map field (?r # recs) = map fst (f # fs)" using recs(2) by (simp add: f)
  moreover have "\<forall>r \<in> set (?r # recs). 0 \<le> match_percentage r \<and> match_percentage r \<le> 100"
    using recs(3) experience_bonus_range[OF v(2,3)] by simp
  ultimately show ?case by blast
qed

lemma recommendations_loop_nothing:
  "\<exists>recs. recommendations_loop [] [] [] fs acc = Inr (acc @ recs) \<and> (\<forall>r \<in> set recs. match_percentage r = 0)"
proof (induction fs arbitrary: acc)
  case Nil
  then show ?case by simp
next
  case (Cons f fs)
  obtain n d where f: "f = (n, d)" by (cases f)
  let ?r = "\<lparr>field = n, match_percentage = 0, job_search_url = get_job_search_url n\<rparr>"
  obtain recs where recs: "recommendations_loop [] [] [] fs (acc @ [?r]) = Inr ((acc @ [?r]) @ recs)"
      "\<forall>r \<in> set recs. match_percentage r = 0"
    using Cons.IH by blast
  have "recommendations_loop [] [] [] (f # fs) acc = Inr (acc @ (?r # recs))"
    using recs(1) by (simp add: f calculate_match_score_nothing bind_err_def experience_bonus_empty)
  moreover have "\<forall>r \<in> set (?r # recs). match_percentage r = 0" using recs(2) by simp
  ultimately show ?case by blast
qed

lemma sorted_rev_neg: "sorted (map (\<lambda>x. - f x) xs) \<Longrightarrow> sorted (rev (map (f :: 'a \<Rightarrow> int) xs))"
  by (induction xs) (auto simp: sorted_append)

lemma sort_reverse_props:
  "set (sort_reverse key xs) = set xs"
  "length (sort_reverse key xs) = length xs"
  "sorted (rev (map key (sort_reverse key xs)))"
  "filter (\<lambda>x. key x = p) (sort_reverse key xs) = filter (\<lambda>x. key x = p) xs"
proof -
  show "set (sort_reverse key xs) = set xs" by (simp add: sort_reverse_def)
  show "length (sort_reverse key xs) = length xs" by (simp add: sort_reverse_def)
  show "sorted (rev (map key (sort_reverse key xs)))"
    unfolding sort_reverse_def by (rule sorted_rev_neg) simp
  have "filter (\<lambda>x. - key x = - p) (sort_key (\<lambda>x. - key x) xs) = filter (\<lambda>x. - key x = - p) xs"
    by (rule sort_key_stable)
  then show "filter (\<lambda>x. key x = p) (sort_reverse key xs) = filter (\<lambda>x. key x = p) xs"
    by (simp add: sort_reverse_def)
qed

lemma distinct_map_sort_reverse:
  "distinct (map f xs) \<Longrightarrow> distinct (map f (sort_reverse key xs))"
  by (simp add: sort_reverse_def distinct_map)

lemma get_job_recommendations_in_ok:
  "\<exists>recs. get_job_recommendations_in fs s k e = Inr recs
     \<and> length recs = length fs
     \<and> set (map field recs) = set (map fst fs)
     \<and> (distinct (map fst fs) \<longrightarrow> distinct (map field recs))
     \<and> sorted (rev (map match_percentage recs))
     \<and> (\<forall>p. subseq (map field (filter (\<lambda>r. match_percentage r = p) recs)) (map fst fs))
     \<and> (\<forall>r \<in> set recs. 0 \<le> match_percentage r \<and> match_percentage r \<le> 100)"
proof -
  obtain us where us: "recommendations_loop s k e fs [] = Inr us" "map field us = map fst fs"
      "\<forall>r \<in> set us. 0 \<le> match_percentage r \<and> match_percentage r \<le> 100"
    using recommendations_loop_ok[of s k e fs "[]"] by auto
  let ?recs = "sort_reverse match_percentage us"
  have r: "get_job_recommendations_in fs s k e = Inr ?recs"
    by (simp add: get_job_recommendations_in_def us(1) bind_err_def)
  have len: "length ?recs = length fs"
    using us(2) sort_reverse_props(2)[of match_percentage us] by (metis length_map)
  have st: "set (map field ?recs) = set (map fst fs)"
    using us(2) sort_reverse_props(1)[of match_percentage us] by (metis set_map)
  have di: "distinct (map fst fs) \<longrightarrow> distinct (map field ?recs)"
    using us(2) distinct_map_sort_reverse[of field us match_percentage] by simp
  have so: "sorted (rev (map match_percentage ?recs))" by (rule sort_reverse_props(3))
  have sub: "\<forall>p. subseq (map field (filter (\<lambda>r. match_percentage r = p) ?recs)) (map fst fs)"
  proof
    fix p
    have "subseq (filter (\<lambda>r. match_percentage r = p) us) us" by simp
    then have "subseq (map field (filter (\<lambda>r. match_percentage r = p) us)) (map field us)"
      by (rule subseq_map)
    then show "subseq (map field (filter (\<lambda>r. match_percentage r = p) ?recs)) (map fst fs)"
      by (simp only: sort_reverse_props(4) us(2))
  qed
  have rg: "\<forall>r \<in> set ?recs. 0 \<le> match_percentage r \<and> match_percentage r \<le> 100"
    using us(3) sort_reverse_props(1)[of match_percentage us] by simp
  show ?thesis using r len st di so sub rg by blast
qed

subsection \<open>Claims about the recommender\<close>

text \<open>
  Claim C1. The match score of a field is an integer between 0 and 100, for any user skills,
  keywords and experience text: the scorer returns (it raises nothing) a value in that range
  for any field data, the bonus step keeps it in that range, and so every one of the
  recommendations, one per field of the taxonomy, carries a percentage between 0 and 100.
\<close>

theorem match_score_in_range:
  "(\<exists>v. calculate_match_score user_skills user_keywords fd = Inr v \<and> 0 \<le> v \<and> v \<le> 100
        \<and> 0 \<le> experience_bonus experience_text name v
        \<and> experience_bonus experience_text name v \<le> 100)
   \<and> (\<exists>recs. get_job_recommendations user_skills user_keywords experience_text = Inr recs
     \<and> set (map field recs) = set (map fst job_fields)
     \<and> (\<forall>r \<in> set recs. 0 \<le> match_percentage r \<and> match_percentage r \<le> 100))"
proof -
  obtain v where v: "calculate_match_score user_skills user_keywords fd = Inr v" "0 \<le> v" "v \<le> 100"
    using calculate_match_score_range by blast
  have "0 \<le> experience_bonus experience_text name v \<and> experience_bonus experience_text name v \<le> 100"
    using experience_bonus_range[OF v(2,3)] .
  then have a: "\<exists>v. calculate_match_score user_skills user_keywords fd = Inr v \<and> 0 \<le> v \<and> v \<le> 100
        \<and> 0 \<le> experience_bonus experience_text name v
        \<and> experience_bonus experience_text name v \<le> 100"
    using v by blast
  have b: "\<exists>recs. get_job_recommendations user_skills user_keywords experience_text = Inr recs
     \<and> set (map field recs) = set (map fst job_fields)
     \<and> (\<forall>r \<in> set recs. 0 \<le> match_percentage r \<and> match_percentage r \<le> 100)"
    using get_job_recommendations_in_ok[of job_fields user_skills user_keywords experience_text]
    unfolding get_job_recommendations_def by blast
  show ?thesis using a b by (rule conjI)
qed

theorem match_score_in_range_witness:
  "\<exists>recs. get_job_recommendations [''Python'', ''Docker''] [\<lparr>word = ''Developer'', count = 1\<rparr>]
              ''Software Engineer at Acme Inc'' = Inr recs
     \<and> (\<exists>r \<in> set recs. field r = ''Software Engineer''
                      \<and> 0 \<le> match_percentage r \<and> match_percentage r \<le> 100)"
proof -
  obtain recs where r:
    "get_job_recommendations [''Python'', ''Docker''] [\<lparr>word = ''Developer'', count = 1\<rparr>]
       ''Software Engineer at Acme Inc'' = Inr recs"
    "set (map field recs) = set (map fst job_fields)"
    "\<forall>r \<in> set recs. 0 \<le> match_percentage r \<and> match_percentage r \<le> 100"
    using conjunct2[OF match_score_in_range] by blast
  have "''Software Engineer'' \<in> set (map fst job_fields)"
    unfolding job_fields_names by simp
  then have "''Software Engineer'' \<in> field ` set recs" using r(2) by simp
  then obtain x where "x \<in> set recs" "field x = ''Software Engineer''" by auto
  then show ?thesis using r(1,3) by blast
qed

text \<open>
  Claim C4. A field whose skill list is empty, or whose keyword list is empty, is scored
  without a division by zero: the loop over the empty list leaves \<^verbatim>\<open>score\<close> (the numerator)
  and \<^verbatim>\<open>max_score\<close> (the denominator) as they were, and the scorer returns a value whatever
  the two lists are.
\<close>

theorem empty_half_is_skipped:
  "(fd_skills fd = [] \<longrightarrow>
      score_loop 60 (map lower user_skills) (map lower (fd_skills fd)) (map lower (fd_skills fd))
        (score, max_score) = Inr (score, max_score))
   \<and> (fd_keywords fd = [] \<longrightarrow>
      score_loop 40 (map (\<lambda>k. lower (word k)) user_keywords) (map lower (fd_keywords fd))
        (map lower (fd_keywords fd)) (score, max_score) = Inr (score, max_score))
   \<and> (\<exists>v. calculate_match_score user_skills user_keywords fd = Inr v)"
  using calculate_match_score_range[of user_skills user_keywords fd] by auto

theorem empty_half_is_skipped_witness:
  "fd_skills \<lparr>fd_skills = [], fd_keywords = [], fd_weight = 1\<rparr> = []
   \<and> score_loop 60 (map lower [''Python'']) [] [] (0, 0) = Inr (0, 0)
   \<and> score_loop 40 (map (\<lambda>k. lower (word k)) []) [] [] (0, 0) = Inr (0, 0)
   \<and> calculate_match_score [] [] \<lparr>fd_skills = [], fd_keywords = [], fd_weight = 1\<rparr> = Inr 0"
  using empty_half_is_skipped[of "\<lparr>fd_skills = [], fd_keywords = [], fd_weight = 1\<rparr>" "[''Python'']" 0 0 "[]"]
        calculate_match_score_nothing
  by simp

text \<open>
  Claim C6. The recommender returns exactly one recommendation per field of the taxonomy
  (as many as there are fields, the same field names, none twice), in descending order of
  match percentage, and recommendations of equal percentage are in the order of the
  taxonomy: the field names of those with any one percentage are a subsequence of the
  taxonomy's names.
\<close>

theorem recommendations_sorted_stable:
  "\<exists>recs. get_job_recommendations user_skills user_keywords experience_text = Inr recs
     \<and> length recs = length job_fields
     \<and> set (map field recs) = set (map fst job_fields)
     \<and> distinct (map field recs)
     \<and> sorted (rev (map match_percentage recs))
     \<and> (\<forall>p. subseq (map field (filter (\<lambda>r. match_percentage r = p) recs)) (map fst job_fields))"
  using get_job_recommendations_in_ok[of job_fields user_skills user_keywords experience_text] distinct_job_fields
  unfolding get_job_recommendations_def by blast

theorem recommendations_sorted_stable_witness:
  "\<exists>recs. get_job_recommendations [] [] [] = Inr recs
     \<and> map match_percentage recs = replicate (length job_fields) 0
     \<and> map field recs = map fst job_fields"
proof -
  obtain recs where r: "get_job_recommendations [] [] [] = Inr recs"
      "length recs = length job_fields"
      "\<forall>p. subseq (map field (filter (\<lambda>r. match_percentage r = p) recs)) (map fst job_fields)"
    using recommendations_sorted_stable[of "[]" "[]" "[]"] by blast
  obtain us where us: "recommendations_loop [] [] [] job_fields [] = Inr us" "\<forall>r \<in> set us. match_percentage r = 0"
    using recommendations_loop_nothing[of job_fields "[]"] by auto
  have "recs = sort_reverse match_percentage us"
    using r(1) us(1) by (simp add: get_job_recommendations_def get_job_recommendations_in_def bind_err_def)
  then have z: "\<forall>r \<in> set recs. match_percentage r = 0"
    using us(2) sort_reverse_props(1)[of match_percentage us] by simp
  then have m: "map match_percentage recs = replicate (length job_fields) 0"
    using r(2) replicate_length_same[of "map match_percentage recs" 0] by simp
  have "filter (\<lambda>r. match_percentage r = 0) recs = recs" using z by (simp add: filter_id_conv)
  then have "subseq (map field recs) (map fst job_fields)" using r(3) by metis
  then have "map field recs = map fst job_fields"
    using r(2) by (simp add: subseq_same_length)
  then show ?thesis using r(1) m by blast
qed

text \<open>
  Claim C7. When the user's skills contain, compared in lower case, every skill of a field
  of the taxonomy, and the user's keyword words every keyword of it, the score of the field
  before the bonus is exactly 100.
\<close>

theorem full_match_scores_100:
  assumes "(name, fd) \<in> set job_fields"
    and "\<forall>s \<in> set (fd_skills fd). lower s \<in> set (map lower user_skills)"
    and "\<forall>k \<in> set (fd_keywords fd). lower k \<in> set (map (\<lambda>e. lower (word e)) user_keywords)"
  shows "calculate_match_score user_skills user_keywords fd = Inr 100"
proof -
  have a: "set (map lower (fd_skills fd)) \<subseteq> set (map lower user_skills)"
    using assms(2) by auto
  have b: "set (map lower (fd_keywords fd)) \<subseteq> set (map (\<lambda>k. lower (word k)) user_keywords)"
    using assms(3) by auto
  have c: "fd_skills fd \<noteq> [] \<or> fd_keywords fd \<noteq> []"
    using field_data_nonempty[OF assms(1)] by simp
  show ?thesis by (rule calculate_match_score_full[OF a b c])
qed

theorem full_match_scores_100_witness:
  "\<exists>fd. (''QA Engineer'', fd) \<in> set job_fields
     \<and> calculate_match_score
        [''git'', ''JAVA'', ''python'', ''selenium'', ''jest'', ''cypress'', ''junit'', ''testng'',
         ''postman'', ''jmeter'', ''javascript'', ''ci/cd'', ''automation testing'', ''Excel'']
        [\<lparr>word = ''Testing'', count = 4\<rparr>, \<lparr>word = ''Qa'', count = 3\<rparr>,
         \<lparr>word = ''Quality'', count = 2\<rparr>, \<lparr>word = ''Test'', count = 2\<rparr>,
         \<lparr>word = ''Automation'', count = 1\<rparr>, \<lparr>word = ''Bug'', count = 1\<rparr>,
         \<lparr>word = ''Defect'', count = 1\<rparr>, \<lparr>word = ''Validation'', count = 1\<rparr>,
         \<lparr>word = ''Regression'', count = 1\<rparr>, \<lparr>word = ''Performance'', count = 1\<rparr>,
         \<lparr>word = ''Team'', count = 1\<rparr>] fd = Inr 100"
  using qa_member full_match_scores_100[OF qa_member qa_skills_covered qa_keywords_covered]
  by blast

text \<open>
  Claim C8, as stated: the Software Engineer field has 21 skills and 11 keywords. It has 22
  skills (and 11 keywords), so the statement fails on the taxonomy of the code.
\<close>

theorem software_engineer_21_skills_counterexample:
  "\<not> (map_option (length \<circ> fd_skills) (job_field ''Software Engineer'') = Some 21
      \<and> map_option (length \<circ> fd_keywords) (job_field ''Software Engineer'') = Some 11)"
  using se_lengths(1) by (simp add: se_lookup)

text \<open>
  Claim C8, amended. The Software Engineer field has 22 skills and 11 keywords. For a user
  whose skill set is exactly Python and Docker, and of whose keyword words exactly
  \<^verbatim>\<open>developer\<close> is a keyword of the field, the loop over the skills adds 2 * (60 / 22) (about
  5.45) to the score, the loop over the keywords 40 / 11 (about 3.64), and the score before
  the bonus is 9.
\<close>

theorem software_engineer_scenario:
  assumes "job_field ''Software Engineer'' = Some fd"
    and "set user_skills = {''Python'', ''Docker''}"
    and "set (map (\<lambda>k. lower (word k)) user_keywords) \<inter> set (map lower (fd_keywords fd)) = {''developer''}"
  shows "length (fd_skills fd) = 22 \<and> length (fd_keywords fd) = 11
    \<and> score_loop 60 (map lower user_skills) (map lower (fd_skills fd)) (map lower (fd_skills fd)) (0, 0)
        = Inr (2 * (60 / 22), 60)
    \<and> score_loop 40 (map (\<lambda>k. lower (word k)) user_keywords) (map lower (fd_keywords fd))
        (map lower (fd_keywords fd)) (0, 0) = Inr (40 / 11, 40)
    \<and> calculate_match_score user_skills user_keywords fd = Inr 9"
proof -
  let ?K = "map (\<lambda>k. lower (word k)) user_keywords"
  have fd: "fd = snd (hd job_fields)"
    using assms(1) unfolding se_lookup by simp
  have n: "length (fd_skills fd) = 22" "length (fd_keywords fd) = 11"
    using se_lengths unfolding fd by simp_all
  have ne: "map lower (fd_skills fd) \<noteq> []" "map lower (fd_keywords fd) \<noteq> []"
    using n by auto
  have us: "set (map lower user_skills) = set [lower ''Python'', lower ''Docker'']"
    using assms(2) by simp
  have sh: "length (filter (\<lambda>x. x \<in> set (map lower user_skills)) (map lower (fd_skills fd))) = 2"
    unfolding us fd by (rule se_skill_hits)
  have sl: "length (map lower (fd_skills fd)) = 22" "length (map lower (fd_keywords fd)) = 11"
    unfolding fd by (rule se_lengths)+
  have s: "share_sum 60 (map lower user_skills) (map lower (fd_skills fd)) = 60 / 11"
    unfolding share_sum_def sh sl by simp
  have fl: "filter (\<lambda>x. x \<in> set ?K) (map lower (fd_keywords fd))
      = filter (\<lambda>x. x = ''developer'') (map lower (fd_keywords fd))"
    by (rule filter_cong[OF refl]) (use assms(3) in blast)
  have kh: "length (filter (\<lambda>x. x \<in> set ?K) (map lower (fd_keywords fd))) = 1"
    unfolding fl unfolding fd by (rule se_keyword_hits)
  have k: "share_sum 40 ?K (map lower (fd_keywords fd)) = 40 / 11"
    unfolding share_sum_def kh sl by simp
  have f: "full_sum 60 (map lower (fd_skills fd)) = 60" "full_sum 40 (map lower (fd_keywords fd)) = 40"
    using ne by (simp_all only: full_sum_eq if_False)
  have l1: "score_loop 60 (map lower user_skills) (map lower (fd_skills fd)) (map lower (fd_skills fd)) (0, 0)
        = Inr (2 * (60 / 22), 60)"
    unfolding score_loop_all s f by simp
  have l2: "score_loop 40 ?K (map lower (fd_keywords fd)) (map lower (fd_keywords fd)) (0, 0) = Inr (40 / 11, 40)"
    unfolding score_loop_all k f by simp
  have "calculate_match_score user_skills user_keywords fd = Inr 9"
    unfolding calculate_match_score_eq Let_def s k f using py_round_100_11 by simp
  then show ?thesis using n l1 l2 by blast
qed

theorem software_engineer_scenario_witness:
  "\<exists>fd. job_field ''Software Engineer'' = Some fd
     \<and> length (fd_skills fd) = 22 \<and> length (fd_keywords fd) = 11
     \<and> calculate_match_score [''Python'', ''Docker''] [\<lparr>word = ''Developer'', count = 2\<rparr>,
         \<lparr>word = ''Team'', count = 1\<rparr>] fd = Inr 9"
proof -
  have b: "set [''Python'', ''Docker''] = {''Python'', ''Docker''}"
    by simp
  show ?thesis using se_lookup software_engineer_scenario[OF se_lookup b se_example_keywords] by blast
qed

end
